theory Spec2Isabelle
  imports Main "HOL-Library.AList"
begin

section \<open>Python string helpers used by the server\<close>

text \<open>
  Header values reach the handlers decoded as Latin-1, so a character is one byte.
  \<open>is_space\<close> lists the code points below 256 for which Python's \<open>str.isspace\<close> holds:
  these are what \<open>str.strip()\<close> removes.
\<close>

definition is_space :: "char \<Rightarrow> bool" where
  "is_space c = (of_char c \<in> {9, 10, 11, 12, 13, 28, 29, 30, 31, 32, 133, 160 :: nat})"

definition strip :: "string \<Rightarrow> string" where
  "strip s = rev (dropWhile is_space (rev (dropWhile is_space s)))"

text \<open>\<open>s.split(sep)\<close> for a one-character separator: the result is never empty.\<close>

fun split_on :: "char \<Rightarrow> string \<Rightarrow> string list" where
  "split_on sep [] = [[]]"
| "split_on sep (c # cs) =
     (if c = sep then [] # split_on sep cs
      else (let r = split_on sep cs in (c # hd r) # tl r))"

text \<open>\<open>s.startswith(p)\<close>.\<close>

fun startswith :: "string \<Rightarrow> string \<Rightarrow> bool" where
  "startswith s [] = True"
| "startswith [] (p # ps) = False"
| "startswith (c # cs) (p # ps) = (c = p \<and> startswith cs ps)"

text \<open>\<open>sub in s\<close>.\<close>

fun contains :: "string \<Rightarrow> string \<Rightarrow> bool" where
  "contains [] sub = (sub = [])"
| "contains (c # cs) sub = (startswith (c # cs) sub \<or> contains cs sub)"

text \<open>
  \<open>cookie.split("=", 1)\<close>: one element when there is no \<open>=\<close>, otherwise the text before
  the first \<open>=\<close> and the text after it. Index 1 of the result raises IndexError when
  there is one element only, which is \<open>None\<close> here.
\<close>

definition split_eq_1 :: "string \<Rightarrow> string list" where
  "split_eq_1 s =
     (if CHR ''='' \<in> set s
      then [takeWhile (\<lambda>c. c \<noteq> CHR ''='') s, tl (dropWhile (\<lambda>c. c \<noteq> CHR ''='') s)]
      else [s])"

definition index1 :: "'a list \<Rightarrow> 'a option" where
  "index1 xs = (case xs of _ # y # _ \<Rightarrow> Some y | _ \<Rightarrow> None)"

text \<open>Python truthiness of an \<open>Optional[str]\<close>: \<open>None\<close> and \<open>""\<close> are falsy.\<close>

fun truthy :: "string option \<Rightarrow> bool" where
  "truthy None = False"
| "truthy (Some s) = (s \<noteq> [])"

text \<open>\<open>x or ''\<close> for an \<open>Optional[str]\<close>.\<close>

fun or_empty :: "string option \<Rightarrow> string" where
  "or_empty None = []"
| "or_empty (Some s) = s"

section \<open>Authentication extractor\<close>

text \<open>
  The request, as far as the handlers read it: the value of its Cookie header, if any.
\<close>

record Request =
  cookie :: "string option"

text \<open>
  One turn of the loop of \<open>extract_cookies_from_request\<close> over the segments of the
  header. The value is \<open>cookie.split("=", 1)[1]\<close>; the prefix test guarantees an
  \<open>=\<close>, so the index is in range (lemmas \<open>psid_value\<close> and \<open>psidts_value\<close> below)
  and the IndexError branch, which would leave the loop, is never taken: it is modelled
  by keeping the pair, and is unreachable.
\<close>

definition cookie_step :: "string option \<times> string option \<Rightarrow> string \<Rightarrow> string option \<times> string option" where
  "cookie_step acc seg =
     (let cookie = strip seg in
      if startswith cookie ''__Secure-1PSID='' then
        (case index1 (split_eq_1 cookie) of Some v \<Rightarrow> (Some v, snd acc) | None \<Rightarrow> acc)
      else if startswith cookie ''__Secure-1PSIDTS='' then
        (case index1 (split_eq_1 cookie) of Some v \<Rightarrow> (fst acc, Some v) | None \<Rightarrow> acc)
      else acc)"

definition extract_cookies_from_request :: "Request \<Rightarrow> string option \<times> string option" where
  "extract_cookies_from_request request =
     (let cookie_header = (case cookie request of None \<Rightarrow> [] | Some h \<Rightarrow> h)
      in foldl cookie_step (None, None) (split_on CHR '';'' cookie_header))"

section \<open>Session cache\<close>

text \<open>The cache key of \<open>get_client_for_cookies\<close>: \<open>f"{secure_1psid}:{secure_1psidts or ''}"\<close>.\<close>

definition cache_key :: "string \<Rightarrow> string option \<Rightarrow> string" where
  "cache_key secure_1psid secure_1psidts = secure_1psid @ '':'' @ or_empty secure_1psidts"

text \<open>
  The upstream world. Client objects are named by the order of their construction (a
  natural number stands for the identity of one \<open>GeminiClient\<close> object). The server keeps
  \<open>client_cache\<close>, a dict from cache keys to client objects: an association list in
  insertion order, as a Python dict is. \<open>running\<close> is the \<open>_running\<close> flag of each
  client object, \<open>upstream_log\<close> the calls made on the upstream so far, in order, and
  \<open>temp_files\<close> the temporary files that exist (a file is named by its number and suffix).
\<close>

datatype Model = G_3_0_PRO | G_2_5_PRO | G_2_5_FLASH | UNSPECIFIED

type_synonym path = "nat \<times> string"

datatype upstream_call =
    Init nat
  | GenerateContent nat string "path list" Model
  | StartChat nat "string list option" Model
  | SendMessage nat string
  | Close nat
  | Save nat string

record ServerState =
  client_cache :: "(string \<times> nat) list"
  next_client :: nat
  running :: "nat \<Rightarrow> bool"
  upstream_log :: "upstream_call list"
  temp_files :: "path list"
  next_temp :: nat

record Image =
  url :: string
  title :: string
  alt :: string
  has_proxy :: bool

record ModelOutput =
  mo_text :: string
  mo_thoughts :: "string option"
  mo_images :: "Image list"
  mo_metadata :: "string list"
  mo_rcid :: string

record UploadFile =
  filename :: string
  content :: string

datatype stage_outcome = Staged | RaisesBeforeCreate string | RaisesAfterCreate string

text \<open>
  Modelled from the spec: the upstream client (\<open>client.py\<close>, \<open>types.py\<close>) and the file
  system are outside \<open>src/\<close>; the spec gives them as opaque capabilities (init,
  generateContent, startChat, sendMessage, close, a liveness flag, scoped temporary
  files). What they answer is a parameter of every handler: each function below takes
  the number of upstream calls made so far, so that two calls with the same arguments
  may answer differently. A \<open>string\<close> on the left of a sum, or in \<open>Some\<close> of a
  \<open>raises\<close> field, is \<open>str(e)\<close> of the exception raised.
\<close>

record World =
  init_raises :: "nat \<Rightarrow> string \<Rightarrow> string option \<Rightarrow> string option"
  generate_content_result :: "nat \<Rightarrow> nat \<Rightarrow> string \<Rightarrow> path list \<Rightarrow> Model \<Rightarrow> string + ModelOutput"
  send_message_result :: "nat \<Rightarrow> nat \<Rightarrow> string list option \<Rightarrow> string \<Rightarrow> Model \<Rightarrow> string + ModelOutput"
  save_result :: "nat \<Rightarrow> nat \<Rightarrow> string \<Rightarrow> string + string option"
  path_suffix :: "string \<Rightarrow> string"
  stage_result :: "UploadFile \<Rightarrow> stage_outcome"
  unlink_raises :: "path \<Rightarrow> string option"
  close_clears_running :: bool
  http_exception_str :: "nat \<Rightarrow> string \<Rightarrow> string"

text \<open>Responses: an \<open>HTTPException\<close> with its status code and detail, or a body (status 200).\<close>

datatype ImageDict = ImageDict string string string string

datatype ChatMetadata = ChatMetadata "string option" "string option" string

datatype Response =
    HTTPException nat string
  | GenerateResponse string "string option" "ImageDict list" ChatMetadata
  | ChatResponse string "string option" "ImageDict list" string string string
  | TestSuccess string nat "(string \<times> string) list" "string option"
  | TestFailure string
  | ImageResponse string

fun status_code :: "Response \<Rightarrow> nat" where
  "status_code (HTTPException c d) = c"
| "status_code _ = 200"

definition log_call :: "upstream_call \<Rightarrow> ServerState \<Rightarrow> ServerState" where
  "log_call c st = st\<lparr>upstream_log := upstream_log st @ [c]\<rparr>"

text \<open>
  The part of \<open>get_client_for_cookies\<close> after the cache lookup: construct a client,
  initialise it, and store it only when \<open>init\<close> returned. That \<open>init\<close>, when it
  returns, leaves the liveness flag of the new client true is the upstream client's
  behaviour, taken from the specification's session lifecycle.
\<close>

definition create_client ::
  "World \<Rightarrow> string \<Rightarrow> string option \<Rightarrow> ServerState \<Rightarrow> ServerState \<times> (Response + nat)" where
  "create_client w secure_1psid secure_1psidts st =
     (let client = next_client st;
          st1 = log_call (Init client) (st\<lparr>next_client := Suc client\<rparr>)
      in case init_raises w (length (upstream_log st)) secure_1psid secure_1psidts of
           None \<Rightarrow>
             (st1\<lparr>running := (running st1)(client := True),
                  client_cache :=
                    AList.update (cache_key secure_1psid secure_1psidts) client (client_cache st1)\<rparr>,
              Inr client)
         | Some e \<Rightarrow>
             (st1, Inl (HTTPException 401
                (''Failed to initialize Gemini client with provided cookies: '' @ e))))"

definition get_client_for_cookies ::
  "World \<Rightarrow> string \<Rightarrow> string option \<Rightarrow> ServerState \<Rightarrow> ServerState \<times> (Response + nat)" where
  "get_client_for_cookies w secure_1psid secure_1psidts st =
     (case map_of (client_cache st) (cache_key secure_1psid secure_1psidts) of
        Some client \<Rightarrow>
          if running st client then (st, Inr client)
          else create_client w secure_1psid secure_1psidts
                 (st\<lparr>client_cache :=
                    AList.delete (cache_key secure_1psid secure_1psidts) (client_cache st)\<rparr>)
      | None \<Rightarrow> create_client w secure_1psid secure_1psidts st)"

text \<open>\<open>shutdown_event\<close>: close every cached client that is running, then clear the cache.\<close>

definition close_client :: "World \<Rightarrow> nat \<Rightarrow> ServerState \<Rightarrow> ServerState" where
  "close_client w client st =
     log_call (Close client)
       (if close_clears_running w then st\<lparr>running := (running st)(client := False)\<rparr> else st)"

fun close_all :: "World \<Rightarrow> nat list \<Rightarrow> ServerState \<Rightarrow> ServerState" where
  "close_all w [] st = st"
| "close_all w (client # cs) st =
     close_all w cs (if running st client then close_client w client st else st)"

definition shutdown_event :: "World \<Rightarrow> ServerState \<Rightarrow> ServerState" where
  "shutdown_event w st = (close_all w (map snd (client_cache st)) st)\<lparr>client_cache := []\<rparr>"

definition initial_state :: ServerState where
  "initial_state =
     \<lparr>client_cache = [], next_client = 0, running = (\<lambda>_. False), upstream_log = [],
      temp_files = [], next_temp = 0\<rparr>"

section \<open>Request handlers\<close>

record GenerateRequest =
  prompt :: string
  model :: string

record ChatRequest = GenerateRequest +
  chat_id :: "string option"
  reply_id :: "string option"
  reply_candidate_id :: "string option"

text \<open>\<open>model_mapping.get(name, Model.G_2_5_FLASH)\<close>.\<close>

definition model_mapping :: "string \<Rightarrow> Model" where
  "model_mapping name =
     (if name = ''gemini-3.0-pro'' then G_3_0_PRO
      else if name = ''gemini-2.5-pro'' then G_2_5_PRO
      else if name = ''gemini-2.5-flash'' then G_2_5_FLASH
      else if name = ''unspecified'' then UNSPECIFIED
      else G_2_5_FLASH)"

definition missing_cookie_detail :: string where
  "missing_cookie_detail =
     ''Missing required cookie: __Secure-1PSID. Please provide Gemini cookies in the Cookie header.''"

text \<open>The image entries of every handler but \<open>generate_image\<close>.\<close>

definition image_dict :: "Image \<Rightarrow> ImageDict" where
  "image_dict img =
     ImageDict (url img) (title img) (alt img) (if has_proxy img then ''web'' else ''generated'')"

definition chat_metadata :: "ModelOutput \<Rightarrow> ChatMetadata" where
  "chat_metadata response =
     ChatMetadata
       (if length (mo_metadata response) > 0 then Some (mo_metadata response ! 0) else None)
       (if length (mo_metadata response) > 1 then Some (mo_metadata response ! 1) else None)
       (mo_rcid response)"

definition generate_response :: "ModelOutput \<Rightarrow> Response" where
  "generate_response response =
     GenerateResponse (mo_text response) (mo_thoughts response)
       (map image_dict (mo_images response)) (chat_metadata response)"

definition generate_content ::
  "World \<Rightarrow> GenerateRequest \<Rightarrow> Request \<Rightarrow> ServerState \<Rightarrow> ServerState \<times> Response" where
  "generate_content w request http_request st =
     (let (req_psid, req_psidts) = extract_cookies_from_request http_request in
      if \<not> truthy req_psid then (st, HTTPException 400 missing_cookie_detail)
      else case get_client_for_cookies w (or_empty req_psid) req_psidts st of
        (st1, Inl err) \<Rightarrow> (st1, err)
      | (st1, Inr current_client) \<Rightarrow>
          (let mdl = model_mapping (model request);
               st2 = log_call (GenerateContent current_client (prompt request) [] mdl) st1
           in case generate_content_result w (length (upstream_log st1)) current_client
                     (prompt request) [] mdl of
                Inr response \<Rightarrow> (st2, generate_response response)
              | Inl e \<Rightarrow> (st2, HTTPException 500 (''Failed to generate content: '' @ e))))"

text \<open>The continuation metadata the chat handler builds, and what it passes to \<open>start_chat\<close>.\<close>

definition chat_request_metadata :: "'a ChatRequest_scheme \<Rightarrow> string list" where
  "chat_request_metadata request =
     (let metadata = [];
          metadata = (if truthy (chat_id request) then metadata @ [or_empty (chat_id request)] else metadata);
          metadata = (if truthy (reply_id request) then metadata @ [or_empty (reply_id request)] else metadata);
          metadata = (if truthy (reply_candidate_id request)
                      then metadata @ [or_empty (reply_candidate_id request)] else metadata)
      in metadata)"

definition start_chat_metadata :: "'a ChatRequest_scheme \<Rightarrow> string list option" where
  "start_chat_metadata request =
     (let metadata = chat_request_metadata request in if metadata \<noteq> [] then Some metadata else None)"

definition chat_with_history ::
  "World \<Rightarrow> ChatRequest \<Rightarrow> Request \<Rightarrow> ServerState \<Rightarrow> ServerState \<times> Response" where
  "chat_with_history w request http_request st =
     (let (req_psid, req_psidts) = extract_cookies_from_request http_request in
      if \<not> truthy req_psid then (st, HTTPException 400 missing_cookie_detail)
      else case get_client_for_cookies w (or_empty req_psid) req_psidts st of
        (st1, Inl err) \<Rightarrow> (st1, err)
      | (st1, Inr current_client) \<Rightarrow>
          (let mdl = model_mapping (model request);
               st2 = log_call (StartChat current_client (start_chat_metadata request) mdl) st1;
               st3 = log_call (SendMessage current_client (prompt request)) st2
           in case send_message_result w (length (upstream_log st2)) current_client
                     (start_chat_metadata request) (prompt request) mdl of
                Inr response \<Rightarrow>
                  (st3, ChatResponse (mo_text response) (mo_thoughts response)
                          (map image_dict (mo_images response))
                          (if length (mo_metadata response) > 0 then mo_metadata response ! 0 else [])
                          (if length (mo_metadata response) > 1 then mo_metadata response ! 1 else [])
                          (mo_rcid response))
              | Inl e \<Rightarrow> (st3, HTTPException 500 (''Failed to chat: '' @ e))))"

text \<open>
  \<open>generate_image\<close>. The upstream image objects carry \<open>url\<close>, \<open>title\<close> and \<open>alt\<close>, so
  \<open>hasattr(img, 'url')\<close> holds and the defaults of \<open>getattr\<close> are not used.
\<close>

definition prompts_to_try :: "string \<Rightarrow> string list" where
  "prompts_to_try p =
     [''Create an image of '' @ p, ''Generate a picture showing '' @ p, ''Draw '' @ p,
      ''Make an image: '' @ p]"

definition generated_image_dicts :: "Image list \<Rightarrow> ImageDict list" where
  "generated_image_dicts imgs =
     map (\<lambda>img. ImageDict (url img) (title img) (alt img)
                  (if contains (url img) ''googleusercontent.com/image_generation_content''
                   then ''generated'' else ''web''))
       (filter (\<lambda>img. url img \<noteq> []) imgs)"

text \<open>
  The loop over the prompt variations: \<open>Inr\<close> is the response returned from inside the
  loop, \<open>Inl\<close> the value of \<open>last_error\<close> when the loop ends.
\<close>

fun try_prompts ::
  "World \<Rightarrow> nat \<Rightarrow> Model \<Rightarrow> string list \<Rightarrow> string option \<Rightarrow> ServerState
   \<Rightarrow> ServerState \<times> (string option + Response)" where
  "try_prompts w client mdl [] last_error st = (st, Inl last_error)"
| "try_prompts w client mdl (prompt_variation # rest) last_error st =
     (let st1 = log_call (GenerateContent client prompt_variation [] mdl) st in
      case generate_content_result w (length (upstream_log st)) client prompt_variation [] mdl of
        Inl e \<Rightarrow> try_prompts w client mdl rest (Some e) st1
      | Inr response \<Rightarrow>
          (let images = generated_image_dicts (mo_images response) in
           if images \<noteq> [] then
             (st1, Inr (GenerateResponse (mo_text response) (mo_thoughts response) images
                          (chat_metadata response)))
           else try_prompts w client mdl rest
                  (Some (''No images generated with prompt: '' @ prompt_variation)) st1))"

definition generate_image ::
  "World \<Rightarrow> GenerateRequest \<Rightarrow> Request \<Rightarrow> ServerState \<Rightarrow> ServerState \<times> Response" where
  "generate_image w request http_request st =
     (let (req_psid, req_psidts) = extract_cookies_from_request http_request in
      if \<not> truthy req_psid then (st, HTTPException 400 missing_cookie_detail)
      else case get_client_for_cookies w (or_empty req_psid) req_psidts st of
        (st1, Inl err) \<Rightarrow> (st1, err)
      | (st1, Inr current_client) \<Rightarrow>
          (case try_prompts w current_client (model_mapping (model request))
                  (prompts_to_try (prompt request)) None st1 of
             (st2, Inr response) \<Rightarrow> (st2, response)
           | (st2, Inl last_error) \<Rightarrow>
               (st2, HTTPException 500
                  (''Failed to generate image: '' @
                   (if truthy last_error then or_empty last_error
                    else ''Failed to generate image with all prompt variations'')))))"

text \<open>
  \<open>test_image_generation\<close> answers 200 in both cases; of the failure body, the text of
  the exception is kept (its \<open>error_type\<close> is the exception's class name).
\<close>

definition test_image_generation :: "World \<Rightarrow> Request \<Rightarrow> ServerState \<Rightarrow> ServerState \<times> Response" where
  "test_image_generation w http_request st =
     (let (req_psid, req_psidts) = extract_cookies_from_request http_request in
      if \<not> truthy req_psid then (st, HTTPException 400 ''Missing required cookie: __Secure-1PSID'')
      else case get_client_for_cookies w (or_empty req_psid) req_psidts st of
        (st1, Inl err) \<Rightarrow> (st1, err)
      | (st1, Inr current_client) \<Rightarrow>
          (let p = ''Create a simple drawing of a red apple'';
               st2 = log_call (GenerateContent current_client p [] G_2_5_FLASH) st1
           in case generate_content_result w (length (upstream_log st1)) current_client p []
                     G_2_5_FLASH of
                Inr response \<Rightarrow>
                  (st2, TestSuccess (mo_text response) (length (mo_images response))
                          (map (\<lambda>img. (url img, title img)) (mo_images response))
                          (mo_thoughts response))
              | Inl e \<Rightarrow> (st2, TestFailure e)))"

text \<open>
  Staging one upload: \<open>NamedTemporaryFile(delete=False, suffix=Path(name).suffix)\<close>, then
  read and write. An exception before the file is created leaves nothing behind; one
  after it leaves the file.
\<close>

definition stage :: "World \<Rightarrow> UploadFile \<Rightarrow> ServerState \<Rightarrow> ServerState \<times> (string + path)" where
  "stage w file st =
     (let p = (next_temp st, path_suffix w (filename file));
          created = st\<lparr>temp_files := temp_files st @ [p], next_temp := Suc (next_temp st)\<rparr>
      in case stage_result w file of
           RaisesBeforeCreate e \<Rightarrow> (st, Inl e)
         | RaisesAfterCreate e \<Rightarrow> (created, Inl e)
         | Staged \<Rightarrow> (created, Inr p))"

text \<open>\<open>os.unlink(path)\<close>: the exception's text when it raises, else the file is gone.\<close>

definition unlink :: "World \<Rightarrow> path \<Rightarrow> ServerState \<Rightarrow> ServerState \<times> string option" where
  "unlink w p st =
     (case unlink_raises w p of
        Some e \<Rightarrow> (st, Some e)
      | None \<Rightarrow> (st\<lparr>temp_files := removeAll p (temp_files st)\<rparr>, None))"

text \<open>
  \<open>edit_image\<close>. The \<open>finally\<close> clause calls \<open>os.unlink\<close> unguarded: an exception it
  raises replaces the value being returned or the exception in flight, and the enclosing
  \<open>except Exception\<close> turns it into the 500.
\<close>

definition edit_image ::
  "World \<Rightarrow> string \<Rightarrow> string \<Rightarrow> UploadFile \<Rightarrow> Request \<Rightarrow> ServerState \<Rightarrow> ServerState \<times> Response" where
  "edit_image w prompt_arg model_arg image_arg http_request st =
     (let (req_psid, req_psidts) = extract_cookies_from_request http_request in
      if \<not> truthy req_psid then (st, HTTPException 400 missing_cookie_detail)
      else case get_client_for_cookies w (or_empty req_psid) req_psidts st of
        (st1, Inl err) \<Rightarrow> (st1, err)
      | (st1, Inr current_client) \<Rightarrow>
          (case stage w image_arg st1 of
             (st2, Inl e) \<Rightarrow> (st2, HTTPException 500 (''Failed to edit image: '' @ e))
           | (st2, Inr temp_file_path) \<Rightarrow>
               (let model_enum = model_mapping model_arg;
                    p = ''Edit this image: '' @ prompt_arg;
                    st3 = log_call (GenerateContent current_client p [temp_file_path] model_enum) st2;
                    r = generate_content_result w (length (upstream_log st2)) current_client p
                          [temp_file_path] model_enum
                in case unlink w temp_file_path st3 of
                     (st4, Some ue) \<Rightarrow> (st4, HTTPException 500 (''Failed to edit image: '' @ ue))
                   | (st4, None) \<Rightarrow>
                       (st4, case r of
                               Inr response \<Rightarrow> generate_response response
                             | Inl e \<Rightarrow> HTTPException 500 (''Failed to edit image: '' @ e)))))"

text \<open>
  \<open>generate_with_files\<close>: the staging loop stops at the first upload that raises, with
  the paths appended so far; the \<open>finally\<close> clause unlinks each of them and swallows
  what \<open>os.unlink\<close> raises.
\<close>

fun stage_all ::
  "World \<Rightarrow> UploadFile list \<Rightarrow> path list \<Rightarrow> ServerState \<Rightarrow> ServerState \<times> path list \<times> string option" where
  "stage_all w [] temps st = (st, temps, None)"
| "stage_all w (file # files) temps st =
     (case stage w file st of
        (st1, Inl e) \<Rightarrow> (st1, temps, Some e)
      | (st1, Inr p) \<Rightarrow> stage_all w files (temps @ [p]) st1)"

fun unlink_all :: "World \<Rightarrow> path list \<Rightarrow> ServerState \<Rightarrow> ServerState" where
  "unlink_all w [] st = st"
| "unlink_all w (temp_file_path # rest) st = unlink_all w rest (fst (unlink w temp_file_path st))"

definition generate_with_files ::
  "World \<Rightarrow> string \<Rightarrow> string \<Rightarrow> UploadFile list \<Rightarrow> Request \<Rightarrow> ServerState \<Rightarrow> ServerState \<times> Response" where
  "generate_with_files w prompt_arg model_arg files http_request st =
     (let (req_psid, req_psidts) = extract_cookies_from_request http_request in
      if \<not> truthy req_psid then (st, HTTPException 400 missing_cookie_detail)
      else case get_client_for_cookies w (or_empty req_psid) req_psidts st of
        (st1, Inl err) \<Rightarrow> (st1, err)
      | (st1, Inr current_client) \<Rightarrow>
          (case stage_all w files [] st1 of
             (st2, temps, Some e) \<Rightarrow>
               (unlink_all w temps st2,
                HTTPException 500 (''Failed to generate content with files: '' @ e))
           | (st2, temps, None) \<Rightarrow>
               (let model_enum = model_mapping model_arg;
                    st3 = log_call (GenerateContent current_client prompt_arg temps model_enum) st2
                in (unlink_all w temps st3,
                    case generate_content_result w (length (upstream_log st2)) current_client
                           prompt_arg temps model_enum of
                      Inr response \<Rightarrow> generate_response response
                    | Inl e \<Rightarrow>
                        HTTPException 500 (''Failed to generate content with files: '' @ e)))))"

text \<open>
  \<open>download_image\<close>. \<open>get_client_for_cookies\<close> is called inside the \<open>try\<close> whose
  \<open>except Exception\<close> catches the \<open>HTTPException\<close> it raises, as it catches the one
  raised for a missing file. \<open>save_result\<close> is \<open>None\<close> when nothing was saved, else the
  bytes of the saved file.
\<close>

fun str_exc :: "World \<Rightarrow> Response \<Rightarrow> string" where
  "str_exc w (HTTPException c d) = http_exception_str w c d"
| "str_exc w _ = []"

definition download_image :: "World \<Rightarrow> string \<Rightarrow> Request \<Rightarrow> ServerState \<Rightarrow> ServerState \<times> Response" where
  "download_image w url_arg http_request st =
     (let (req_psid, req_psidts) = extract_cookies_from_request http_request in
      if \<not> truthy req_psid then (st, HTTPException 400 ''Missing required cookie: __Secure-1PSID'')
      else case get_client_for_cookies w (or_empty req_psid) req_psidts st of
        (st1, Inl err) \<Rightarrow>
          (st1, HTTPException 500 (''Error downloading image: '' @ str_exc w err))
      | (st1, Inr current_client) \<Rightarrow>
          (let st2 = log_call (Save current_client url_arg) st1 in
           case save_result w (length (upstream_log st1)) current_client url_arg of
             Inl e \<Rightarrow> (st2, HTTPException 500 (''Error downloading image: '' @ e))
           | Inr None \<Rightarrow>
               (st2, HTTPException 500
                  (''Error downloading image: '' @ str_exc w (HTTPException 500 ''Failed to save image'')))
           | Inr (Some image_content) \<Rightarrow> (st2, ImageResponse image_content)))"

text \<open>
  The content-producing endpoints, as one type of request, and the dispatch of a request
  to its handler.
\<close>

datatype Endpoint =
    PostGenerate GenerateRequest
  | PostChat ChatRequest
  | PostGenerateImage GenerateRequest
  | PostTestImageGen
  | PostEditImage string string UploadFile
  | PostGenerateWithFiles string string "UploadFile list"
  | GetDownloadImage string

fun handle :: "World \<Rightarrow> Endpoint \<Rightarrow> Request \<Rightarrow> ServerState \<Rightarrow> ServerState \<times> Response" where
  "handle w (PostGenerate r) h st = generate_content w r h st"
| "handle w (PostChat r) h st = chat_with_history w r h st"
| "handle w (PostGenerateImage r) h st = generate_image w r h st"
| "handle w PostTestImageGen h st = test_image_generation w h st"
| "handle w (PostEditImage p m f) h st = edit_image w p m f h st"
| "handle w (PostGenerateWithFiles p m fs) h st = generate_with_files w p m fs h st"
| "handle w (GetDownloadImage u) h st = download_image w u h st"

section \<open>The cache invariant, and example worlds and states\<close>

text \<open>
  What holds of the cache in every state the server reaches: one entry per key, no client
  object stored under two keys, and every stored client was constructed earlier.
\<close>

definition cache_ok :: "ServerState \<Rightarrow> bool" where
  "cache_ok st =
     (distinct (map fst (client_cache st)) \<and> distinct (map snd (client_cache st))
      \<and> (\<forall>c\<in>snd ` set (client_cache st). c < next_client st))"

definition no_output :: ModelOutput where
  "no_output =
     \<lparr>mo_text = ''hello'', mo_thoughts = None, mo_images = [],
      mo_metadata = [''c1'', ''r1''], mo_rcid = ''rc1''\<rparr>"

text \<open>A world in which every upstream call and every file operation succeeds.\<close>

definition accepting_world :: World where
  "accepting_world =
     \<lparr>init_raises = (\<lambda>n p s. None),
      generate_content_result = (\<lambda>n c p fs m. Inr no_output),
      send_message_result = (\<lambda>n c md p m. Inr no_output),
      save_result = (\<lambda>n c u. Inr (Some ''png'')),
      path_suffix = (\<lambda>name. ''.png''),
      stage_result = (\<lambda>f. Staged),
      unlink_raises = (\<lambda>p. None),
      close_clears_running = True,
      http_exception_str = (\<lambda>c d. d)\<rparr>"

text \<open>The state after one client was created for the cookie \<open>abc\<close>, running or not.\<close>

definition one_client_state :: "bool \<Rightarrow> ServerState" where
  "one_client_state live =
     \<lparr>client_cache = [(''abc:'', 0)], next_client = 1, running = (\<lambda>_. False)(0 := live),
      upstream_log = [Init 0], temp_files = [], next_temp = 0\<rparr>"

text \<open>A state with two cached clients, the first one dead.\<close>

definition two_client_state :: ServerState where
  "two_client_state =
     \<lparr>client_cache = [(''abc:'', 0), (''xyz:ts'', 1)], next_client = 2,
      running = (\<lambda>_. False)(1 := True),
      upstream_log = [Init 0, Init 1], temp_files = [], next_temp = 0\<rparr>"

text \<open>
  The continuation fields of a chat request that are present, in order, read from the
  words of the specification (a field is present when it is not \<open>None\<close>): the list the
  chat handler's own list is compared with.
\<close>

definition spec_present_fields :: "'a ChatRequest_scheme \<Rightarrow> string list" where
  "spec_present_fields request =
     concat (map (\<lambda>f. case f of None \<Rightarrow> [] | Some v \<Rightarrow> [v])
       [chat_id request, reply_id request, reply_candidate_id request])"

definition chat_example :: "string option \<Rightarrow> string option \<Rightarrow> string option \<Rightarrow> ChatRequest" where
  "chat_example c r rc =
     \<lparr>prompt = ''hi'', model = ''gemini-2.5-flash'', chat_id = c, reply_id = r,
      reply_candidate_id = rc\<rparr>"

definition abc_request :: Request where
  "abc_request = \<lparr>cookie = Some ''__Secure-1PSID=abc''\<rparr>"










definition unlink_failing_world :: World where
  "unlink_failing_world = accepting_world\<lparr>unlink_raises := (\<lambda>p. Some ''permission denied'')\<rparr>"

definition upstream_and_unlink_failing_world :: World where
  "upstream_and_unlink_failing_world =
     unlink_failing_world\<lparr>generate_content_result := (\<lambda>n c p fs m. Inl ''upstream down'')\<rparr>"

definition photo :: UploadFile where
  "photo = \<lparr>filename = ''a.png'', content = ''bytes''\<rparr>"




section \<open>Properties of the cache key\<close>

text \<open>
  Claim C2, counterexample. The claim says that two requests with the same primary token,
  one supplying a secondary token and one not, get distinct cache keys. A request that
  supplies an empty secondary token (\<open>__Secure-1PSIDTS=\<close>) gets the key of the request
  that supplies none.
\<close>

theorem C2_cache_key_presence_counterexample:
  "extract_cookies_from_request \<lparr>cookie = Some ''__Secure-1PSID=abc; __Secure-1PSIDTS=''\<rparr>
     = (Some ''abc'', Some [])
   \<and> extract_cookies_from_request \<lparr>cookie = Some ''__Secure-1PSID=abc''\<rparr> = (Some ''abc'', None)
   \<and> cache_key ''abc'' (Some []) = cache_key ''abc'' None"
  by code_simp

text \<open>
  Claim C2, as amended. The cache key is a function of the identity pair, so equal pairs
  get equal keys; with the same primary token, a request that supplies a non-empty
  secondary token and a request that supplies none get distinct keys; an empty secondary
  token gets the key of an absent one.
\<close>

theorem C2_cache_key_amended:
  "((p1, s1) = (p2, s2) \<longrightarrow> cache_key p1 s1 = cache_key p2 s2)
   \<and> (s \<noteq> [] \<longrightarrow> cache_key p (Some s) \<noteq> cache_key p None)
   \<and> cache_key p (Some []) = cache_key p None"
  by (simp add: cache_key_def)

theorem C2_cache_key_amended_witness:
  "((''abc'', Some ''ts'') = (''abc'', Some ''ts'') \<and> cache_key ''abc'' (Some ''ts'') = cache_key ''abc'' (Some ''ts''))
   \<and> (''ts'' \<noteq> [] \<and> cache_key ''abc'' (Some ''ts'') \<noteq> cache_key ''abc'' None)
   \<and> cache_key ''abc'' (Some []) = cache_key ''abc'' None"
  using C2_cache_key_amended [of "''abc''" "Some ''ts''" "''abc''" "Some ''ts''" "''ts''" "''abc''"]
  by simp

section \<open>Properties of the session cache\<close>

lemma update_absent: "map_of al k = None \<Longrightarrow> AList.update k v al = al @ [(k, v)]"
  by (induction al) (auto split: if_splits)

lemma map_of_delete_same: "map_of (AList.delete k al) k = None"
  by (simp add: AList.delete_eq map_of_eq_None_iff image_iff)

lemma create_client_ok:
  assumes "create_client w p s st = (st', Inr c)"
  shows "c = next_client st \<and> init_raises w (length (upstream_log st)) p s = None
     \<and> map_of (client_cache st') (cache_key p s) = Some c
     \<and> client_cache st' = AList.update (cache_key p s) c (client_cache st)
     \<and> running st' = (running st)(c := True)
     \<and> next_client st' = Suc c
     \<and> upstream_log st' = upstream_log st @ [Init c]
     \<and> temp_files st' = temp_files st \<and> next_temp st' = next_temp st"
  using assms
  by (auto simp: create_client_def Let_def log_call_def AList.update_conv' split: option.splits)


lemma get_client_hit:
  assumes "map_of (client_cache st) (cache_key p s) = Some c" "running st c"
  shows "get_client_for_cookies w p s st = (st, Inr c)"
  using assms by (simp add: get_client_for_cookies_def)

lemma get_client_dead:
  assumes "map_of (client_cache st) (cache_key p s) = Some c" "\<not> running st c"
  shows "get_client_for_cookies w p s st =
     create_client w p s (st\<lparr>client_cache := AList.delete (cache_key p s) (client_cache st)\<rparr>)"
  using assms by (simp add: get_client_for_cookies_def)

lemma get_client_ok_cached:
  assumes "get_client_for_cookies w p s st = (st', Inr c)"
  shows "map_of (client_cache st') (cache_key p s) = Some c"
  using assms
  by (auto simp: get_client_for_cookies_def split: option.splits if_splits dest: create_client_ok)



lemma cache_ok_delete:
  "cache_ok st \<Longrightarrow> cache_ok (st\<lparr>client_cache := AList.delete k (client_cache st)\<rparr>)"
  by (auto simp: cache_ok_def AList.delete_eq distinct_map_filter)

lemma cache_ok_create:
  assumes "cache_ok st" "map_of (client_cache st) (cache_key p s) = None"
  shows "cache_ok (fst (create_client w p s st))"
proof (cases "init_raises w (length (upstream_log st)) p s")
  case None
  have "next_client st \<notin> snd ` set (client_cache st)"
    using assms(1) by (auto simp: cache_ok_def)
  moreover have "cache_key p s \<notin> fst ` set (client_cache st)"
    using assms(2) by (simp add: map_of_eq_None_iff)
  ultimately show ?thesis
    using assms None
    by (auto simp: create_client_def Let_def log_call_def cache_ok_def update_absent less_Suc_eq)
next
  case (Some e)
  then show ?thesis
    using assms by (auto simp: create_client_def Let_def log_call_def cache_ok_def less_Suc_eq)
qed

lemma cache_ok_get_client:
  assumes "cache_ok st"
  shows "cache_ok (fst (get_client_for_cookies w p s st))"
proof (cases "map_of (client_cache st) (cache_key p s)")
  case None
  then show ?thesis using cache_ok_create [OF assms None] by (simp add: get_client_for_cookies_def)
next
  case (Some c)
  show ?thesis
  proof (cases "running st c")
    case True
    with Some assms show ?thesis by (simp add: get_client_for_cookies_def)
  next
    case False
    have "cache_ok (fst (create_client w p s (st\<lparr>client_cache := AList.delete (cache_key p s) (client_cache st)\<rparr>)))"
      by (rule cache_ok_create) (simp_all add: cache_ok_delete assms map_of_delete_same)
    with Some False show ?thesis by (simp add: get_client_for_cookies_def)
  qed
qed

lemma first_call:
  "get_client_for_cookies accepting_world ''abc'' None initial_state = (one_client_state True, Inr 0)"
  by (simp add: get_client_for_cookies_def create_client_def cache_key_def initial_state_def
      accepting_world_def one_client_state_def log_call_def Let_def)

lemma first_call_w:
  assumes "init_raises w = init_raises accepting_world"
  shows "get_client_for_cookies w ''abc'' None initial_state = (one_client_state True, Inr 0)"
  using assms
  by (simp add: get_client_for_cookies_def create_client_def cache_key_def initial_state_def
      accepting_world_def one_client_state_def log_call_def Let_def)

lemma cache_ok_initial: "cache_ok initial_state"
  by (simp add: cache_ok_def initial_state_def)

lemma cached_bound:
  "cache_ok st \<Longrightarrow> map_of (client_cache st) k = Some c \<Longrightarrow> c < next_client st"
  by (force simp: cache_ok_def dest!: map_of_SomeD)

text \<open>
  Claim C1. Let a first \<open>get_client_for_cookies\<close> call, from a state that satisfies the
  cache invariant, return the client \<open>c\<close> for a pair, and let the second call with the
  same pair start from any later state with the same cache (the flags, the log and the
  files may have changed). If \<open>c\<close> is still running, the second call returns \<open>c\<close> and
  leaves the state as it is: nothing is initialised. If \<open>c\<close> is no longer running and the
  upstream accepts the pair, the second call removes the entry, constructs a client that
  did not exist before, initialises it once, stores it under the key and returns it.
\<close>

theorem C1_acquire_reuse_or_recreate:
  assumes ok: "cache_ok st"
    and first: "get_client_for_cookies w p s st = (st1, Inr c)"
    and cache: "client_cache st1' = client_cache st1"
    and mono: "next_client st1 \<le> next_client st1'"
  shows "(running st1' c \<longrightarrow> get_client_for_cookies w' p s st1' = (st1', Inr c))
     \<and> (\<not> running st1' c \<longrightarrow> init_raises w' (length (upstream_log st1')) p s = None \<longrightarrow>
          (\<exists>st2 c2. get_client_for_cookies w' p s st1' = (st2, Inr c2) \<and> c2 \<noteq> c
             \<and> c2 = next_client st1'
             \<and> upstream_log st2 = upstream_log st1' @ [Init c2]
             \<and> client_cache st2 = AList.delete (cache_key p s) (client_cache st1') @ [(cache_key p s, c2)]
             \<and> map_of (client_cache st2) (cache_key p s) = Some c2
             \<and> running st2 c2))"
proof -
  have m1: "map_of (client_cache st1) (cache_key p s) = Some c"
    using get_client_ok_cached [OF first] .
  then have m: "map_of (client_cache st1') (cache_key p s) = Some c"
    using cache by simp
  have "cache_ok st1" using cache_ok_get_client [OF ok, of w p s] first by simp
  then have lt: "c < next_client st1'" using cached_bound [OF _ m1] mono by simp
  have live: "running st1' c \<Longrightarrow> get_client_for_cookies w' p s st1' = (st1', Inr c)"
    using get_client_hit [OF m] .
  have dead: "\<exists>st2 c2. get_client_for_cookies w' p s st1' = (st2, Inr c2) \<and> c2 \<noteq> c
             \<and> c2 = next_client st1'
             \<and> upstream_log st2 = upstream_log st1' @ [Init c2]
             \<and> client_cache st2 = AList.delete (cache_key p s) (client_cache st1') @ [(cache_key p s, c2)]
             \<and> map_of (client_cache st2) (cache_key p s) = Some c2
             \<and> running st2 c2"
    if d: "\<not> running st1' c" and i: "init_raises w' (length (upstream_log st1')) p s = None"
  proof -
    let ?st = "st1'\<lparr>client_cache := AList.delete (cache_key p s) (client_cache st1')\<rparr>"
    have g: "get_client_for_cookies w' p s st1' = create_client w' p s ?st"
      using get_client_dead [OF m d] .
    obtain st2 r where c: "create_client w' p s ?st = (st2, r)" by (cases "create_client w' p s ?st")
    with i have r: "r = Inr (next_client st1')"
      by (auto simp: create_client_def Let_def)
    from create_client_ok [OF c [unfolded r]] g c r lt show ?thesis
      by (auto simp: update_absent map_of_delete_same)
  qed
  from live dead show ?thesis by blast
qed

theorem C1_acquire_reuse_or_recreate_witness:
  "cache_ok initial_state
   \<and> get_client_for_cookies accepting_world ''abc'' None initial_state = (one_client_state True, Inr 0)
   \<and> running (one_client_state True) 0
   \<and> get_client_for_cookies accepting_world ''abc'' None (one_client_state True) = (one_client_state True, Inr 0)
   \<and> \<not> running (one_client_state False) 0
   \<and> init_raises accepting_world (length (upstream_log (one_client_state False))) ''abc'' None = None
   \<and> (\<exists>st2. get_client_for_cookies accepting_world ''abc'' None (one_client_state False) = (st2, Inr 1)
         \<and> upstream_log st2 = [Init 0, Init 1] \<and> client_cache st2 = [(''abc:'', 1)] \<and> running st2 1)"
proof -
  have a: "client_cache (one_client_state True) = client_cache (one_client_state True)"
    and b: "client_cache (one_client_state False) = client_cache (one_client_state True)"
    and n: "next_client (one_client_state True) \<le> next_client (one_client_state True)"
           "next_client (one_client_state True) \<le> next_client (one_client_state False)"
    and r: "running (one_client_state True) 0" "\<not> running (one_client_state False) 0"
    and i: "init_raises accepting_world (length (upstream_log (one_client_state False))) ''abc'' None = None"
    by (simp_all add: one_client_state_def accepting_world_def)
  have k: "cache_key ''abc'' None = ''abc:''" by (simp add: cache_key_def)
  from C1_acquire_reuse_or_recreate [OF cache_ok_initial first_call a n(1), of accepting_world] r(1)
  have live: "get_client_for_cookies accepting_world ''abc'' None (one_client_state True) = (one_client_state True, Inr 0)"
    by simp
  from C1_acquire_reuse_or_recreate [OF cache_ok_initial first_call b n(2), of accepting_world] r(2) i
  obtain st2 where "get_client_for_cookies accepting_world ''abc'' None (one_client_state False) = (st2, Inr (next_client (one_client_state False)))
     \<and> upstream_log st2 = upstream_log (one_client_state False) @ [Init (next_client (one_client_state False))]
     \<and> client_cache st2 = AList.delete (cache_key ''abc'' None) (client_cache (one_client_state False)) @ [(cache_key ''abc'' None, next_client (one_client_state False))]
     \<and> running st2 (next_client (one_client_state False))"
    by blast
  then have dead: "\<exists>st2. get_client_for_cookies accepting_world ''abc'' None (one_client_state False) = (st2, Inr 1)
         \<and> upstream_log st2 = [Init 0, Init 1] \<and> client_cache st2 = [(''abc:'', 1)] \<and> running st2 1"
    by (simp add: one_client_state_def k AList.delete_eq)
  from cache_ok_initial first_call r i live dead show ?thesis by simp
qed

section \<open>Shutdown\<close>

lemma close_all_log:
  "distinct cs \<Longrightarrow>
   upstream_log (close_all w cs st) = upstream_log st @ map Close (filter (running st) cs)"
proof (induction cs arbitrary: st)
  case Nil
  then show ?case by simp
next
  case (Cons c cs)
  let ?st = "if running st c then close_client w c st else st"
  have same: "filter (running ?st) cs = filter (running st) cs"
    using Cons.prems by (intro filter_cong) (auto simp: close_client_def log_call_def)
  have "upstream_log ?st = upstream_log st @ (if running st c then [Close c] else [])"
    by (simp add: close_client_def log_call_def)
  with Cons.IH [of ?st] Cons.prems same show ?case by simp
qed

text \<open>
  Claim C8. From a state that satisfies the cache invariant, \<open>shutdown_event\<close> leaves the
  cache empty, and the calls it makes on the upstream are one \<open>close\<close> for each cached
  client whose flag was true, in cache order: every such client is closed exactly once
  and no other client is closed.
\<close>

theorem C8_shutdown_closes_live_once:
  assumes "cache_ok st"
  shows "client_cache (shutdown_event w st) = []
    \<and> upstream_log (shutdown_event w st) =
        upstream_log st @ map Close (filter (running st) (map snd (client_cache st)))
    \<and> (\<forall>c. length (filter (\<lambda>x. x = Close c) (drop (length (upstream_log st)) (upstream_log (shutdown_event w st))))
           = (if c \<in> snd ` set (client_cache st) \<and> running st c then 1 else 0))"
proof -
  have d: "distinct (map snd (client_cache st))" using assms by (simp add: cache_ok_def)
  have l: "upstream_log (shutdown_event w st) =
        upstream_log st @ map Close (filter (running st) (map snd (client_cache st)))"
    using close_all_log [OF d] by (simp add: shutdown_event_def)
  have cnt: "length (filter (\<lambda>x. x = Close c) (map Close xs)) = (if c \<in> set xs then 1 else 0)"
    if "distinct xs" for c and xs :: "nat list"
    using that by (induction xs) auto
  have "distinct (filter (running st) (map snd (client_cache st)))" using d by simp
  from cnt [OF this] l show ?thesis
    by (auto simp: shutdown_event_def)
qed


theorem C8_shutdown_closes_live_once_witness:
  "cache_ok two_client_state
   \<and> client_cache (shutdown_event accepting_world two_client_state) = []
   \<and> upstream_log (shutdown_event accepting_world two_client_state) = [Init 0, Init 1, Close 1]"
proof -
  have ok: "cache_ok two_client_state" by (simp add: cache_ok_def two_client_state_def)
  from C8_shutdown_closes_live_once [OF ok, of accepting_world] ok show ?thesis
    by (simp add: two_client_state_def)
qed


section \<open>The authentication check of the handlers\<close>

lemma extract_no_header: "extract_cookies_from_request \<lparr>cookie = None\<rparr> = (None, None)"
  by code_simp

lemma extract_abc: "extract_cookies_from_request abc_request = (Some ''abc'', None)"
  unfolding abc_request_def by code_simp

lemma handle_missing:
  assumes "\<not> truthy (fst (extract_cookies_from_request h))"
  shows "handle w e h st = (st, snd (handle w e \<lparr>cookie = None\<rparr> st))"
    and "status_code (snd (handle w e h st)) = 400"
proof -
  obtain a b where ab: "extract_cookies_from_request h = (a, b)"
    by (cases "extract_cookies_from_request h")
  from assms ab have na: "\<not> truthy a" by simp
  from na ab extract_no_header show "handle w e h st = (st, snd (handle w e \<lparr>cookie = None\<rparr> st))"
    by (cases e)
     (simp_all add: generate_content_def chat_with_history_def generate_image_def
        test_image_generation_def edit_image_def generate_with_files_def download_image_def)
  from na ab show "status_code (snd (handle w e h st)) = 400"
    by (cases e)
     (simp_all add: generate_content_def chat_with_history_def generate_image_def
        test_image_generation_def edit_image_def generate_with_files_def download_image_def)
qed

text \<open>
  Claim C4. When the cookie header of a request yields no primary token, every
  content-producing handler answers 400 and returns the state it was given: the cache,
  the set of constructed clients and the log of upstream calls are unchanged, so no
  session was looked up or created and no upstream call was made.
\<close>

theorem C4_missing_primary_token_400:
  assumes "fst (extract_cookies_from_request h) = None"
  shows "fst (handle w e h st) = st \<and> status_code (snd (handle w e h st)) = 400"
proof -
  from assms have "\<not> truthy (fst (extract_cookies_from_request h))" by simp
  from handle_missing [OF this, of w e st] show ?thesis by simp
qed

theorem C4_missing_primary_token_400_witness:
  "fst (extract_cookies_from_request \<lparr>cookie = Some ''theme=dark''\<rparr>) = None
   \<and> fst (handle accepting_world (GetDownloadImage ''u'') \<lparr>cookie = Some ''theme=dark''\<rparr>
        two_client_state) = two_client_state
   \<and> status_code (snd (handle accepting_world (GetDownloadImage ''u'')
        \<lparr>cookie = Some ''theme=dark''\<rparr> two_client_state)) = 400"
proof -
  have e: "fst (extract_cookies_from_request \<lparr>cookie = Some ''theme=dark''\<rparr>) = None"
    by code_simp
  from C4_missing_primary_token_400 [OF e, of accepting_world "GetDownloadImage ''u''" two_client_state] e
  show ?thesis by blast
qed

lemma startswith_append: "startswith s p \<Longrightarrow> \<exists>r. s = p @ r"
  by (induction s p rule: startswith.induct) auto

text \<open>The index of \<open>cookie.split("=", 1)[1]\<close> is in range behind either prefix test.\<close>

lemma psid_value: "startswith s ''__Secure-1PSID='' \<Longrightarrow> index1 (split_eq_1 s) = Some (drop 15 s)"
proof -
  assume "startswith s ''__Secure-1PSID=''"
  then obtain r where "s = ''__Secure-1PSID='' @ r" using startswith_append by blast
  then show ?thesis by (simp add: split_eq_1_def index1_def)
qed

lemma psidts_value: "startswith s ''__Secure-1PSIDTS='' \<Longrightarrow> index1 (split_eq_1 s) = Some (drop 17 s)"
proof -
  assume "startswith s ''__Secure-1PSIDTS=''"
  then obtain r where "s = ''__Secure-1PSIDTS='' @ r" using startswith_append by blast
  then show ?thesis by (simp add: split_eq_1_def index1_def)
qed

lemma cookie_step_fst:
  "fst (cookie_step acc seg) =
     (if startswith (strip seg) ''__Secure-1PSID='' then Some (drop 15 (strip seg)) else fst acc)"
  by (simp add: cookie_step_def Let_def psid_value psidts_value)

lemma foldl_cookie_step_empty:
  assumes "\<forall>s\<in>set segs. startswith (strip s) ''__Secure-1PSID='' \<longrightarrow> strip s = ''__Secure-1PSID=''"
    and "fst acc = Some [] \<or> (\<exists>s\<in>set segs. strip s = ''__Secure-1PSID='')"
  shows "fst (foldl cookie_step acc segs) = Some []"
  using assms
proof (induction segs arbitrary: acc)
  case Nil
  then show ?case by simp
next
  case (Cons seg segs)
  show ?case
  proof (cases "startswith (strip seg) ''__Secure-1PSID=''")
    case True
    with Cons.prems(1) have "strip seg = ''__Secure-1PSID=''" by simp
    then have "fst (cookie_step acc seg) = Some []" by (simp add: cookie_step_fst)
    with Cons.IH [of "cookie_step acc seg"] Cons.prems(1) show ?thesis by simp
  next
    case False
    then have f: "fst (cookie_step acc seg) = fst acc" by (simp add: cookie_step_fst)
    from False have "strip seg \<noteq> ''__Secure-1PSID=''" by auto
    with Cons.prems(2) have "fst acc = Some [] \<or> (\<exists>s\<in>set segs. strip s = ''__Secure-1PSID='')"
      by auto
    with f Cons.IH [of "cookie_step acc seg"] Cons.prems(1) show ?thesis by simp
  qed
qed

lemma extract_empty_primary:
  assumes "\<forall>s\<in>set (split_on CHR '';'' hdr).
             startswith (strip s) ''__Secure-1PSID='' \<longrightarrow> strip s = ''__Secure-1PSID=''"
    and "\<exists>s\<in>set (split_on CHR '';'' hdr). strip s = ''__Secure-1PSID=''"
  shows "fst (extract_cookies_from_request \<lparr>cookie = Some hdr\<rparr>) = Some []"
  using foldl_cookie_step_empty [OF assms(1), of "(None, None)"] assms(2)
  by (simp add: extract_cookies_from_request_def)

text \<open>
  Claim C9. Let the cookie header have a segment \<open>__Secure-1PSID=\<close>, and let every
  segment that names the primary cookie have the empty value. Then the primary token
  extracted is the empty string, and every content-producing handler answers as it does
  for a request without a Cookie header: the same 400 response, and the state it was
  given is returned unchanged, so the session cache is never reached.
\<close>

theorem C9_empty_primary_token_400:
  assumes "\<forall>s\<in>set (split_on CHR '';'' hdr).
             startswith (strip s) ''__Secure-1PSID='' \<longrightarrow> strip s = ''__Secure-1PSID=''"
    and "\<exists>s\<in>set (split_on CHR '';'' hdr). strip s = ''__Secure-1PSID=''"
  shows "fst (extract_cookies_from_request \<lparr>cookie = Some hdr\<rparr>) = Some []
     \<and> handle w e \<lparr>cookie = Some hdr\<rparr> st = handle w e \<lparr>cookie = None\<rparr> st
     \<and> fst (handle w e \<lparr>cookie = Some hdr\<rparr> st) = st
     \<and> status_code (snd (handle w e \<lparr>cookie = Some hdr\<rparr> st)) = 400"
proof -
  have e: "fst (extract_cookies_from_request \<lparr>cookie = Some hdr\<rparr>) = Some []"
    using extract_empty_primary [OF assms] .
  then have 1: "\<not> truthy (fst (extract_cookies_from_request \<lparr>cookie = Some hdr\<rparr>))" by simp
  have 2: "\<not> truthy (fst (extract_cookies_from_request \<lparr>cookie = None\<rparr>))"
    by (simp add: extract_no_header)
  from handle_missing [OF 1, of w e st] handle_missing [OF 2, of w e st] e show ?thesis
    by (metis fst_conv)
qed

theorem C9_empty_primary_token_400_witness:
  "split_on CHR '';'' ''__Secure-1PSID=; __Secure-1PSIDTS=ts''
     = [''__Secure-1PSID='', '' __Secure-1PSIDTS=ts'']
   \<and> fst (extract_cookies_from_request \<lparr>cookie = Some ''__Secure-1PSID=; __Secure-1PSIDTS=ts''\<rparr>)
       = Some []
   \<and> handle accepting_world PostTestImageGen
        \<lparr>cookie = Some ''__Secure-1PSID=; __Secure-1PSIDTS=ts''\<rparr> two_client_state
       = handle accepting_world PostTestImageGen \<lparr>cookie = None\<rparr> two_client_state
   \<and> fst (handle accepting_world PostTestImageGen
        \<lparr>cookie = Some ''__Secure-1PSID=; __Secure-1PSIDTS=ts''\<rparr> two_client_state)
       = two_client_state
   \<and> status_code (snd (handle accepting_world PostTestImageGen
        \<lparr>cookie = Some ''__Secure-1PSID=; __Secure-1PSIDTS=ts''\<rparr> two_client_state)) = 400"
proof -
  let ?hdr = "''__Secure-1PSID=; __Secure-1PSIDTS=ts''"
  have s: "split_on CHR '';'' ?hdr = [''__Secure-1PSID='', '' __Secure-1PSIDTS=ts'']"
    by code_simp
  have a: "strip ''__Secure-1PSID='' = ''__Secure-1PSID=''" by code_simp
  have b: "strip '' __Secure-1PSIDTS=ts'' = ''__Secure-1PSIDTS=ts''" by code_simp
  have h1: "\<forall>s\<in>set (split_on CHR '';'' ?hdr).
             startswith (strip s) ''__Secure-1PSID='' \<longrightarrow> strip s = ''__Secure-1PSID=''"
    by (simp add: s a b)
  have h2: "\<exists>s\<in>set (split_on CHR '';'' ?hdr). strip s = ''__Secure-1PSID=''"
    by (simp add: s a)
  from C9_empty_primary_token_400 [OF h1 h2, of accepting_world PostTestImageGen two_client_state] s
  show ?thesis by blast
qed

section \<open>Chat continuation metadata\<close>

lemma chat_request_metadata_eq:
  "chat_request_metadata request = filter (\<lambda>v. v \<noteq> []) (spec_present_fields request)"
  by (cases "chat_id request"; cases "reply_id request"; cases "reply_candidate_id request")
     (simp_all add: chat_request_metadata_def spec_present_fields_def Let_def)

text \<open>
  Claim C6, counterexample. The claim says that the metadata passed to \<open>start_chat\<close> is
  the list of the fields present in the request. A request with an empty \<open>chat_id\<close> and
  the \<open>reply_id\<close> \<open>r1\<close> passes \<open>["r1"]\<close>, not \<open>["", "r1"]\<close>, and a request with no field
  passes \<open>None\<close>, not the empty list.
\<close>

theorem C6_chat_metadata_counterexample:
  "start_chat_metadata (chat_example (Some []) (Some ''r1'') None)
     \<noteq> Some (spec_present_fields (chat_example (Some []) (Some ''r1'') None))
   \<and> start_chat_metadata (chat_example None None None)
     \<noteq> Some (spec_present_fields (chat_example None None None))"
  by (simp add: start_chat_metadata_def chat_request_metadata_def spec_present_fields_def chat_example_def)

text \<open>
  Claim C6, as amended. For a chat request whose session was acquired, the handler calls
  \<open>start_chat\<close> once, then \<open>send_message\<close>; the metadata of \<open>start_chat\<close> is the list of
  the fields present and not empty, in the order chat id, reply id, reply candidate id,
  with nothing in the place of the others, and it is \<open>None\<close> when that list is empty. A
  request with the chat id \<open>c1\<close> only passes \<open>["c1"]\<close>.
\<close>

theorem C6_chat_metadata_amended:
  assumes "extract_cookies_from_request h = (Some p, ts)" "p \<noteq> []"
     "get_client_for_cookies w p ts st = (st1, Inr c)"
  shows "upstream_log (fst (chat_with_history w request h st)) =
     upstream_log st1 @
       [StartChat c
          (if filter (\<lambda>v. v \<noteq> []) (spec_present_fields request) = [] then None
           else Some (filter (\<lambda>v. v \<noteq> []) (spec_present_fields request)))
          (model_mapping (model request)),
        SendMessage c (prompt request)]"
  using assms
  by (simp add: chat_with_history_def Let_def log_call_def start_chat_metadata_def
        chat_request_metadata_eq split: sum.splits)

theorem C6_chat_metadata_amended_witness:
  "extract_cookies_from_request abc_request = (Some ''abc'', None) \<and> ''abc'' \<noteq> []
   \<and> get_client_for_cookies accepting_world ''abc'' None initial_state = (one_client_state True, Inr 0)
   \<and> upstream_log (fst (chat_with_history accepting_world (chat_example (Some ''c1'') None None)
         abc_request initial_state)) =
       [Init 0, StartChat 0 (Some [''c1'']) G_2_5_FLASH, SendMessage 0 ''hi'']"
proof -
  have ne: "''abc'' \<noteq> []" by simp
  from C6_chat_metadata_amended [OF extract_abc ne first_call, of "chat_example (Some ''c1'') None None"]
  have "upstream_log (fst (chat_with_history accepting_world (chat_example (Some ''c1'') None None)
         abc_request initial_state)) =
       [Init 0, StartChat 0 (Some [''c1'']) G_2_5_FLASH, SendMessage 0 ''hi'']"
    by (simp add: spec_present_fields_def chat_example_def one_client_state_def model_mapping_def)
  with extract_abc first_call show ?thesis by simp
qed

text \<open>
  Claim C10. The list the chat handler builds never holds an empty string; an empty
  \<open>chat_id\<close>, \<open>reply_id\<close> or \<open>reply_candidate_id\<close> gives the metadata that the absent
  field gives; and when each of the three is absent or empty, \<open>start_chat\<close> gets \<open>None\<close>.
\<close>

theorem C10_empty_fields_like_absent:
  "[] \<notin> set (chat_request_metadata request)
   \<and> start_chat_metadata (request\<lparr>chat_id := Some []\<rparr>) = start_chat_metadata (request\<lparr>chat_id := None\<rparr>)
   \<and> start_chat_metadata (request\<lparr>reply_id := Some []\<rparr>) = start_chat_metadata (request\<lparr>reply_id := None\<rparr>)
   \<and> start_chat_metadata (request\<lparr>reply_candidate_id := Some []\<rparr>)
       = start_chat_metadata (request\<lparr>reply_candidate_id := None\<rparr>)
   \<and> (\<not> truthy (chat_id request) \<and> \<not> truthy (reply_id request) \<and> \<not> truthy (reply_candidate_id request)
        \<longrightarrow> start_chat_metadata request = None)"
  by (cases "chat_id request"; cases "reply_id request"; cases "reply_candidate_id request")
     (simp_all add: start_chat_metadata_def chat_request_metadata_def Let_def)

theorem C10_empty_fields_like_absent_witness:
  "[] \<notin> set (chat_request_metadata (chat_example (Some []) None (Some [])))
   \<and> \<not> truthy (chat_id (chat_example (Some []) None (Some [])))
   \<and> \<not> truthy (reply_id (chat_example (Some []) None (Some [])))
   \<and> \<not> truthy (reply_candidate_id (chat_example (Some []) None (Some [])))
   \<and> start_chat_metadata (chat_example (Some []) None (Some [])) = None"
proof -
  let ?r = "chat_example (Some []) None (Some [])"
  have f: "\<not> truthy (chat_id ?r) \<and> \<not> truthy (reply_id ?r) \<and> \<not> truthy (reply_candidate_id ?r)"
    by (simp add: chat_example_def)
  from C10_empty_fields_like_absent [of ?r]
  have a: "[] \<notin> set (chat_request_metadata ?r)"
    and b: "\<not> truthy (chat_id ?r) \<and> \<not> truthy (reply_id ?r) \<and> \<not> truthy (reply_candidate_id ?r)
        \<longrightarrow> start_chat_metadata ?r = None"
    by blast+
  from a b f show ?thesis by blast
qed


section \<open>Image generation: the loop over the prompt templates\<close>




















section \<open>Upstream rejection of the cookies\<close>





section \<open>Release of the staged files\<close>

text \<open>
  What \<open>generate_with_files\<close> answers does not depend on whether \<open>os.unlink\<close> raises: its
  cleanup swallows the exception.
\<close>

lemma create_client_unlink_indep:
  "create_client (w\<lparr>unlink_raises := u\<rparr>) p s st = create_client w p s st"
  by (simp add: create_client_def)

lemma get_client_unlink_indep:
  "get_client_for_cookies (w\<lparr>unlink_raises := u\<rparr>) p s st = get_client_for_cookies w p s st"
  by (simp add: get_client_for_cookies_def create_client_unlink_indep split: option.splits)

lemma stage_unlink_indep: "stage (w\<lparr>unlink_raises := u\<rparr>) f st = stage w f st"
  by (simp add: stage_def)

lemma stage_all_unlink_indep:
  "stage_all (w\<lparr>unlink_raises := u\<rparr>) fs temps st = stage_all w fs temps st"
  by (induction fs arbitrary: temps st) (simp_all add: stage_unlink_indep split: prod.splits sum.splits)

lemma generate_with_files_unlink_indep:
  "snd (generate_with_files (w\<lparr>unlink_raises := u\<rparr>) p m fs h st) = snd (generate_with_files w p m fs h st)"
  by (simp add: generate_with_files_def get_client_unlink_indep stage_all_unlink_indep Let_def
      split: prod.splits sum.splits option.splits)


text \<open>
  Claim C7, at the failing input. The claim says that in both attachment-taking handlers
  a release that fails never changes the handler's result or error. With an upload
  staged and the upstream answering, \<open>edit_image\<close> returns the response when the unlink
  succeeds and a 500 carrying the unlink error when it raises; when the upstream raises
  too, the 500 carries the unlink error in place of the upstream's. \<open>generate_with_files\<close>,
  in the same worlds, returns the response, and the upstream's error.
\<close>

theorem C7_edit_image_unlink_failure_masks_result:
  "snd (edit_image accepting_world ''brighter'' ''gemini-2.5-pro'' photo abc_request initial_state)
     = generate_response no_output
   \<and> snd (edit_image unlink_failing_world ''brighter'' ''gemini-2.5-pro'' photo abc_request initial_state)
     = HTTPException 500 ''Failed to edit image: permission denied''
   \<and> snd (generate_with_files unlink_failing_world ''brighter'' ''gemini-2.5-pro'' [photo] abc_request
        initial_state)
     = generate_response no_output
   \<and> snd (edit_image upstream_and_unlink_failing_world ''brighter'' ''gemini-2.5-pro'' photo abc_request
        initial_state)
     = HTTPException 500 ''Failed to edit image: permission denied''
   \<and> snd (generate_with_files upstream_and_unlink_failing_world ''brighter'' ''gemini-2.5-pro'' [photo]
        abc_request initial_state)
     = HTTPException 500 ''Failed to generate content with files: upstream down''"
proof -
  have g1: "get_client_for_cookies accepting_world ''abc'' None initial_state = (one_client_state True, Inr 0)"
    and g2: "get_client_for_cookies unlink_failing_world ''abc'' None initial_state = (one_client_state True, Inr 0)"
    and g3: "get_client_for_cookies upstream_and_unlink_failing_world ''abc'' None initial_state = (one_client_state True, Inr 0)"
    by (rule first_call_w, simp add: unlink_failing_world_def upstream_and_unlink_failing_world_def)+
  show ?thesis
    using extract_abc g1 g2 g3
    by (simp add: edit_image_def generate_with_files_def stage_def unlink_def Let_def
          accepting_world_def unlink_failing_world_def upstream_and_unlink_failing_world_def)
qed


end
